theory Spec2Isabelle
  imports Main "HOL-Library.Word"
begin

section \<open>Data model (src/types/todo.ts and the columns used by src/app/page.tsx)\<close>

text \<open>
  A JavaScript string is a sequence of UTF-16 code units. Timestamps are the instants
  the ISO strings of the source denote, counted in milliseconds; the remote table orders
  rows by the instant, not by the characters of its rendering.
\<close>

type_synonym jsstring = "16 word list"
type_synonym timestamp = int

text \<open>\<^verbatim>\<open>export type TodoPriority = 'low' | 'medium' | 'high'\<close>\<close>

datatype TodoPriority = low | medium | high

text \<open>
  A row of the \<^verbatim>\<open>todos\<close> table. The interface \<^verbatim>\<open>Todo\<close> declares \<^verbatim>\<open>id\<close>, \<^verbatim>\<open>text\<close>,
  \<^verbatim>\<open>completed\<close>, \<^verbatim>\<open>priority\<close>, \<^verbatim>\<open>user_id?\<close> and \<^verbatim>\<open>created_at\<close>; page.tsx also reads and
  writes the columns \<^verbatim>\<open>delete_flag\<close> and \<^verbatim>\<open>updated_at\<close>, and \<^verbatim>\<open>select('*')\<close> returns
  every column. The fields \<^verbatim>\<open>id\<close>, \<^verbatim>\<open>text\<close> and \<^verbatim>\<open>priority\<close> carry the prefix
  \<open>todo_\<close> here.
\<close>

record Todo =
  todo_id :: jsstring
  todo_text :: jsstring
  completed :: bool
  todo_priority :: TodoPriority
  user_id :: "jsstring option"
  created_at :: timestamp
  delete_flag :: bool
  updated_at :: timestamp

section \<open>String.prototype.trim\<close>

text \<open>
  \<^verbatim>\<open>trim\<close> removes the code units of WhiteSpace and LineTerminator from both
  ends: TAB, LF, VT, FF, CR, SP, NBSP, U+1680, U+2000..U+200A, U+2028, U+2029, U+202F,
  U+205F, U+3000 and U+FEFF.
\<close>

definition is_ws :: "16 word \<Rightarrow> bool" where
  "is_ws c \<longleftrightarrow>
     c = 0x0009 \<or> c = 0x000A \<or> c = 0x000B \<or> c = 0x000C \<or> c = 0x000D \<or> c = 0x0020 \<or>
     c = 0x00A0 \<or> c = 0x1680 \<or> (0x2000 \<le> c \<and> c \<le> 0x200A) \<or> c = 0x2028 \<or>
     c = 0x2029 \<or> c = 0x202F \<or> c = 0x205F \<or> c = 0x3000 \<or> c = 0xFEFF"

definition trim :: "jsstring \<Rightarrow> jsstring" where
  "trim s = rev (dropWhile is_ws (rev (dropWhile is_ws s)))"

section \<open>The remote store\<close>

text \<open>
  The calls page.tsx builds with the client of src/lib/supabase.ts:
  \<^verbatim>\<open>.select('*').eq(..).order('created_at', {ascending: ..})\<close>,
  \<^verbatim>\<open>.insert([..]).select()\<close> and \<^verbatim>\<open>.update({..}).eq(..)\<close>, all on the table
  \<^verbatim>\<open>todos\<close>. A request is the data such a chain of calls describes.
\<close>

datatype cond = Eq_delete_flag bool | Eq_id jsstring

datatype order_by = Order_created_at bool

record new_row =
  nr_text :: jsstring
  nr_completed :: bool
  nr_priority :: TodoPriority
  nr_delete_flag :: bool
  nr_updated_at :: timestamp

record patch =
  p_completed :: "bool option"
  p_delete_flag :: "bool option"
  p_updated_at :: "timestamp option"

datatype request =
    Select "cond list" order_by
  | Insert "new_row list" bool
  | Update patch "cond list" bool

text \<open>The \<^verbatim>\<open>{ data, error }\<close> a call resolves to; \<^verbatim>\<open>error\<close> carries its message.\<close>

record response =
  data :: "Todo list option"
  error :: "jsstring option"

text \<open>
  What the client cannot decide: whether the call fails on the way (network,
  authentication, rejection: the message of the failure), the server's clock and the
  identifiers the server generates (the k-th row of an insert gets \<open>srv_id k\<close>).
\<close>

record env =
  fault :: "jsstring option"
  srv_now :: timestamp
  srv_id :: "nat \<Rightarrow> jsstring"

definition failed :: "jsstring \<Rightarrow> response" where
  "failed m = \<lparr>data = None, error = Some m\<rparr>"

definition duplicate_key :: jsstring where
  "duplicate_key = map of_char ''duplicate key value violates unique constraint''"

text \<open>
  Modelled from the spec: the hosted table behind the client of src/lib/supabase.ts is
  not part of the repository. Section 6 of the specification gives it the usual
  \<^verbatim>\<open>select\<close>, \<^verbatim>\<open>insert\<close> and \<^verbatim>\<open>update\<close> semantics with filter-by-equality on \<^verbatim>\<open>id\<close> or
  \<^verbatim>\<open>delete_flag\<close> and order-by on \<^verbatim>\<open>created_at\<close>. A row satisfies a list of filters
  when it satisfies each of them.
\<close>

fun matches :: "cond \<Rightarrow> Todo \<Rightarrow> bool" where
  "matches (Eq_delete_flag b) r = (delete_flag r = b)"
| "matches (Eq_id i) r = (todo_id r = i)"

definition satisfies :: "cond list \<Rightarrow> Todo \<Rightarrow> bool" where
  "satisfies cs r = list_all (\<lambda>c. matches c r) cs"

text \<open>
  Modelled from the spec: order-by on \<^verbatim>\<open>created_at\<close>, ascending or descending. Rows
  with equal \<^verbatim>\<open>created_at\<close> keep their table order (the store promises no order among
  them; no theorem below depends on it).
\<close>

fun order_rows :: "order_by \<Rightarrow> Todo list \<Rightarrow> Todo list" where
  "order_rows (Order_created_at ascending) rs =
     (if ascending then sort_key created_at rs else sort_key (\<lambda>r. - created_at r) rs)"

text \<open>
  Modelled from the spec: an update writes the columns the patch names and keeps the
  others.
\<close>

definition apply_patch :: "patch \<Rightarrow> Todo \<Rightarrow> Todo" where
  "apply_patch p r =
     r\<lparr>completed := (case p_completed p of None \<Rightarrow> completed r | Some b \<Rightarrow> b),
       delete_flag := (case p_delete_flag p of None \<Rightarrow> delete_flag r | Some b \<Rightarrow> b),
       updated_at := (case p_updated_at p of None \<Rightarrow> updated_at r | Some t \<Rightarrow> t)\<rparr>"

text \<open>
  Modelled from the spec: an insert creates one row for each row of the payload;
  \<^verbatim>\<open>id\<close> and \<^verbatim>\<open>created_at\<close> are server-assigned, \<^verbatim>\<open>user_id\<close> is not supplied.
\<close>

definition created_rows :: "env \<Rightarrow> new_row list \<Rightarrow> Todo list" where
  "created_rows e ps =
     map (\<lambda>(k, p). \<lparr>todo_id = srv_id e k, todo_text = nr_text p,
                     completed = nr_completed p, todo_priority = nr_priority p,
                     user_id = None, created_at = srv_now e,
                     delete_flag = nr_delete_flag p, updated_at = nr_updated_at p\<rparr>)
         (enumerate 0 ps)"

text \<open>
  Modelled from the spec: the remote store, as a function from the request and the
  table to the response and the table afterwards. A call that fails on the way leaves
  the table as it was. \<^verbatim>\<open>id\<close> is the table's unique key, so an insert whose generated
  identifiers are already taken is rejected. An update changes the rows that satisfy its
  filters, whether there are any or not. Insert and update return rows only when
  \<^verbatim>\<open>.select()\<close> follows them.
\<close>

fun remote :: "env \<Rightarrow> request \<Rightarrow> Todo list \<Rightarrow> response \<times> Todo list" where
  "remote e (Select cs ob) t =
     (case fault e of
        Some m \<Rightarrow> (failed m, t)
      | None \<Rightarrow> (\<lparr>data = Some (order_rows ob (filter (satisfies cs) t)), error = None\<rparr>, t))"
| "remote e (Insert ps returning) t =
     (case fault e of
        Some m \<Rightarrow> (failed m, t)
      | None \<Rightarrow>
          (let new = created_rows e ps in
           if distinct (map todo_id new) \<and>
              list_all (\<lambda>i. i \<notin> set (map todo_id t)) (map todo_id new)
           then (\<lparr>data = (if returning then Some new else None), error = None\<rparr>, t @ new)
           else (failed duplicate_key, t)))"
| "remote e (Update p cs returning) t =
     (case fault e of
        Some m \<Rightarrow> (failed m, t)
      | None \<Rightarrow>
          (let t' = map (\<lambda>r. if satisfies cs r then apply_patch p r else r) t in
           (\<lparr>data = (if returning then Some (filter (satisfies cs) t') else None),
             error = None\<rparr>, t')))"

section \<open>The component Home (src/app/page.tsx)\<close>

text \<open>
  The fixed texts of the source's messages: \<^verbatim>\<open>console.error\<close> is called with one of
  four prefixes (lines 34, 63, 88, 111) and \<^verbatim>\<open>error.message\<close>; \<^verbatim>\<open>alert\<close> with one of
  two texts (lines 35, 64).
\<close>

datatype message = FetchFailed | AddFailed | UpdateFailed | DeleteFailed

datatype effect =
    is_ConsoleError: ConsoleError message jsstring
  | is_Alert: Alert message
  | is_Uncaught: UncaughtTypeError

text \<open>
  The three \<^verbatim>\<open>useState\<close> cells of the component, and around them what its handlers
  act on: the remote table, the calls issued to it and the messages shown, oldest first.
\<close>

record world =
  todos :: "Todo list"
  inputText :: jsstring
  priority :: TodoPriority
  table :: "Todo list"
  calls :: "request list"
  effects :: "effect list"

text \<open>The state at mount: \<^verbatim>\<open>useState([])\<close>, \<^verbatim>\<open>useState('')\<close>, \<^verbatim>\<open>useState('medium')\<close>.\<close>

definition mounted :: "Todo list \<Rightarrow> world" where
  "mounted t = \<lparr>todos = [], inputText = [], priority = medium, table = t,
                calls = [], effects = []\<rparr>"

text \<open>
  Each handler awaits its call, so a handler is a function of the world and of what
  the environment answers. \<^verbatim>\<open>send\<close> issues one request.
\<close>

definition send :: "env \<Rightarrow> request \<Rightarrow> world \<Rightarrow> response \<times> world" where
  "send e q w =
     (let (resp, t') = remote e q (table w) in
      (resp, w\<lparr>table := t', calls := calls w @ [q]\<rparr>))"

text \<open>
  page.tsx, lines 26 to 30:
  \<^verbatim>\<open>.select('*').eq('delete_flag',false).order('created_at', { ascending: false })\<close>.
\<close>

definition fetch_request :: request where
  "fetch_request = Select [Eq_delete_flag False] (Order_created_at False)"

text \<open>page.tsx, lines 24 to 40.\<close>

definition fetchTodos :: "env \<Rightarrow> world \<Rightarrow> world" where
  "fetchTodos e w =
     (let (resp, w1) = send e fetch_request w in
      case error resp of
        Some m \<Rightarrow> w1\<lparr>effects := effects w1 @ [ConsoleError FetchFailed m, Alert FetchFailed]\<rparr>
      | None \<Rightarrow> w1\<lparr>todos := (case data resp of None \<Rightarrow> [] | Some d \<Rightarrow> d)\<rparr>)"

text \<open>
  page.tsx, lines 50 to 60: the array of one row handed to \<^verbatim>\<open>insert\<close>, followed by
  \<^verbatim>\<open>.select()\<close>. \<open>now\<close> is the client's clock, read by \<^verbatim>\<open>new Date().toISOString()\<close>.
\<close>

definition add_request :: "jsstring \<Rightarrow> TodoPriority \<Rightarrow> timestamp \<Rightarrow> request" where
  "add_request txt prio now =
     Insert [\<lparr>nr_text = txt, nr_completed = False, nr_priority = prio,
              nr_delete_flag = False, nr_updated_at = now\<rparr>] True"

text \<open>
  page.tsx, lines 45 to 70. The handler runs in two parts, with the \<^verbatim>\<open>await\<close> of line 50
  between them; other handlers may start or finish there. What the handler keeps while it
  waits is the answer on its way and the \<^verbatim>\<open>todos\<close> of its closure: the list of the
  render in which it was called, which line 67 reads after the \<^verbatim>\<open>await\<close>.
\<close>

record pending =
  answer :: response
  seen_todos :: "Todo list"

text \<open>
  Lines 45 to 60: the guard, and the insert built from the input and the priority of
  the render that was clicked. The store handles the request when it is sent. Past the
  guard there is a pending answer; a handler that returned at line 47 leaves none.
\<close>

definition addTodo_begin :: "timestamp \<Rightarrow> env \<Rightarrow> world \<Rightarrow> pending option \<times> world" where
  "addTodo_begin now e w =
     (if trim (inputText w) = [] then (None, w)
      else
        (let (resp, w1) = send e (add_request (inputText w) (priority w) now) w in
         (Some \<lparr>answer = resp, seen_todos = todos w\<rparr>, w1)))"

text \<open>
  Lines 62 to 69, run when the answer arrives, in the world as it is then. Spreading a
  null \<^verbatim>\<open>data\<close> throws before either setter runs.
\<close>

definition addTodo_resume :: "pending option \<Rightarrow> world \<Rightarrow> world" where
  "addTodo_resume p w =
     (case p of
        None \<Rightarrow> w
      | Some a \<Rightarrow>
          (case error (answer a) of
             Some m \<Rightarrow> w\<lparr>effects := effects w @ [ConsoleError AddFailed m, Alert AddFailed]\<rparr>
           | None \<Rightarrow>
               (case data (answer a) of
                  None \<Rightarrow> w\<lparr>effects := effects w @ [UncaughtTypeError]\<rparr>
                | Some d \<Rightarrow> w\<lparr>todos := d @ seen_todos a, inputText := []\<rparr>)))"

text \<open>A submit whose answer arrives before anything else happens.\<close>

definition addTodo :: "timestamp \<Rightarrow> env \<Rightarrow> world \<Rightarrow> world" where
  "addTodo now e w = (let (p, w1) = addTodo_begin now e w in addTodo_resume p w1)"

text \<open>
  Two submits, the second clicked before the answer to the first has arrived; the
  answers then arrive in the order of the requests.
\<close>

definition double_submit :: "timestamp \<Rightarrow> env \<Rightarrow> timestamp \<Rightarrow> env \<Rightarrow> world \<Rightarrow> world" where
  "double_submit now e now' e' w =
     (let (p, w1) = addTodo_begin now e w;
          (p', w2) = addTodo_begin now' e' w1
      in addTodo_resume p' (addTodo_resume p w2))"

text \<open>page.tsx, lines 79 to 85.\<close>

definition toggle_request :: "jsstring \<Rightarrow> bool \<Rightarrow> timestamp \<Rightarrow> request" where
  "toggle_request i currentCompleted now =
     Update \<lparr>p_completed = Some (\<not> currentCompleted), p_delete_flag = None,
             p_updated_at = Some now\<rparr> [Eq_id i] False"

text \<open>
  page.tsx, lines 77 to 94. The reload is the call \<^verbatim>\<open>fetchTodos()\<close> of line 92, run to
  its end with its own answer from the environment.
\<close>

definition toggleTodo :: "jsstring \<Rightarrow> bool \<Rightarrow> timestamp \<Rightarrow> env \<Rightarrow> env \<Rightarrow> world \<Rightarrow> world" where
  "toggleTodo i currentCompleted now e e' w =
     (let (resp, w1) = send e (toggle_request i currentCompleted now) w in
      case error resp of
        Some m \<Rightarrow> w1\<lparr>effects := effects w1 @ [ConsoleError UpdateFailed m]\<rparr>
      | None \<Rightarrow> fetchTodos e' w1)"

text \<open>page.tsx, lines 102 to 108.\<close>

definition delete_request :: "jsstring \<Rightarrow> timestamp \<Rightarrow> request" where
  "delete_request i now =
     Update \<lparr>p_completed = None, p_delete_flag = Some True, p_updated_at = Some now\<rparr>
            [Eq_id i] False"

text \<open>page.tsx, lines 100 to 116.\<close>

definition deleteTodo :: "jsstring \<Rightarrow> timestamp \<Rightarrow> env \<Rightarrow> env \<Rightarrow> world \<Rightarrow> world" where
  "deleteTodo i now e e' w =
     (let (resp, w1) = send e (delete_request i now) w in
      case error resp of
        Some m \<Rightarrow> w1\<lparr>effects := effects w1 @ [ConsoleError DeleteFailed m]\<rparr>
      | None \<Rightarrow> fetchTodos e' w1)"

text \<open>
  page.tsx, lines 164 to 180: every rendered row carries the click handler of line 174,
  closed over the row of the local list. A click on the k-th row calls \<^verbatim>\<open>toggleTodo\<close>
  with that row's \<^verbatim>\<open>id\<close> and \<^verbatim>\<open>completed\<close>; there is nothing to click beyond the list.
\<close>

definition click_toggle :: "nat \<Rightarrow> timestamp \<Rightarrow> env \<Rightarrow> env \<Rightarrow> world \<Rightarrow> world" where
  "click_toggle k now e e' w =
     (if k < length (todos w)
      then toggleTodo (todo_id (todos w ! k)) (completed (todos w ! k)) now e e' w
      else w)"

section \<open>Sample data\<close>

text \<open>Strings of ASCII characters as code units.\<close>

definition js :: "string \<Rightarrow> jsstring" where
  "js s = map of_char s"

text \<open>A store that answers, and one that cannot be reached.\<close>

definition up :: env where
  "up = \<lparr>fault = None, srv_now = 1000, srv_id = (\<lambda>k. js ''new'' @ [of_nat k])\<rparr>"

definition down :: env where
  "down = \<lparr>fault = Some (js ''Failed to fetch''), srv_now = 1000,
           srv_id = (\<lambda>k. js ''new'' @ [of_nat k])\<rparr>"

text \<open>Three rows: an open one, a soft-deleted one and a completed one.\<close>

definition milk :: Todo where
  "milk = \<lparr>todo_id = js ''a'', todo_text = js ''Buy milk'', completed = False,
           todo_priority = medium, user_id = None, created_at = 10, delete_flag = False,
           updated_at = 10\<rparr>"

definition bread :: Todo where
  "bread = \<lparr>todo_id = js ''b'', todo_text = js ''Buy bread'', completed = False,
            todo_priority = low, user_id = None, created_at = 20, delete_flag = True,
            updated_at = 25\<rparr>"

definition taxes :: Todo where
  "taxes = \<lparr>todo_id = js ''c'', todo_text = js ''File taxes'', completed = True,
            todo_priority = high, user_id = None, created_at = 30, delete_flag = False,
            updated_at = 35\<rparr>"

definition shelf :: world where
  "shelf = mounted [milk, bread, taxes]"

text \<open>The input field holds text with blanks at both ends; the priority is high.\<close>

definition typing :: world where
  "typing = shelf\<lparr>inputText := js ''  Call mum '', priority := high\<rparr>"

text \<open>
  The same with the list loaded, a second store answer with another clock and other
  identifiers, and the rows the two answers create for that input.
\<close>

definition desk :: world where
  "desk = fetchTodos up typing"

definition later :: env where
  "later = \<lparr>fault = None, srv_now = 2000, srv_id = (\<lambda>k. js ''nxt'' @ [of_nat k])\<rparr>"

definition mum :: Todo where
  "mum = \<lparr>todo_id = js ''new'' @ [0], todo_text = js ''  Call mum '', completed = False,
          todo_priority = high, user_id = None, created_at = 1000, delete_flag = False,
          updated_at = 50\<rparr>"

definition mum_again :: Todo where
  "mum_again = \<lparr>todo_id = js ''nxt'' @ [0], todo_text = js ''  Call mum '',
                completed = False, todo_priority = high, user_id = None, created_at = 2000,
                delete_flag = False, updated_at = 51\<rparr>"

text \<open>
  One row, loaded; then a click on it whose update is applied while the reload that
  follows fails.
\<close>

definition stale :: world where
  "stale = click_toggle 0 60 up down (fetchTodos up (mounted [milk]))"

section \<open>What each call and each handler computes\<close>

lemma satisfies_active: "satisfies [Eq_delete_flag False] = (\<lambda>r. \<not> delete_flag r)"
  by (rule ext) (simp add: satisfies_def)

lemma satisfies_id: "satisfies [Eq_id i] = (\<lambda>r. todo_id r = i)"
  by (rule ext) (simp add: satisfies_def)

lemma remote_error:
  "error (fst (remote e q t)) = Some m \<Longrightarrow> remote e q t = (failed m, t)"
  by (cases q; cases "fault e") (auto simp: failed_def Let_def split: if_splits)

lemma remote_fault:
  "fault e = Some m \<Longrightarrow> remote e q t = (failed m, t)"
  by (cases q) simp_all

lemma remote_fetch_ok:
  "fault e = None \<Longrightarrow>
   remote e fetch_request t =
     (\<lparr>data = Some (sort_key (\<lambda>r. - created_at r) (filter (\<lambda>r. \<not> delete_flag r) t)),
       error = None\<rparr>, t)"
  by (simp add: fetch_request_def satisfies_active)

lemma remote_toggle_ok:
  "fault e = None \<Longrightarrow>
   remote e (toggle_request i c now) t =
     (\<lparr>data = None, error = None\<rparr>,
      map (\<lambda>r. if todo_id r = i then r\<lparr>completed := \<not> c, updated_at := now\<rparr> else r) t)"
  by (simp add: toggle_request_def satisfies_id apply_patch_def cong: if_cong)

lemma remote_delete_ok:
  "fault e = None \<Longrightarrow>
   remote e (delete_request i now) t =
     (\<lparr>data = None, error = None\<rparr>,
      map (\<lambda>r. if todo_id r = i then r\<lparr>delete_flag := True, updated_at := now\<rparr> else r) t)"
  by (simp add: delete_request_def satisfies_id apply_patch_def cong: if_cong)

lemma remote_add_ok:
  "fault e = None \<Longrightarrow> srv_id e 0 \<notin> set (map todo_id t) \<Longrightarrow>
   remote e (add_request txt prio now) t =
     (\<lparr>data = Some [\<lparr>todo_id = srv_id e 0, todo_text = txt, completed = False,
                      todo_priority = prio, user_id = None, created_at = srv_now e,
                      delete_flag = False, updated_at = now\<rparr>],
       error = None\<rparr>,
      t @ [\<lparr>todo_id = srv_id e 0, todo_text = txt, completed = False,
             todo_priority = prio, user_id = None, created_at = srv_now e,
             delete_flag = False, updated_at = now\<rparr>])"
  by (simp add: add_request_def created_rows_def Let_def)

declare remote.simps [simp del]

lemma fetchTodos_ok:
  "fault e = None \<Longrightarrow>
   fetchTodos e w =
     w\<lparr>calls := calls w @ [fetch_request],
       todos := sort_key (\<lambda>r. - created_at r) (filter (\<lambda>r. \<not> delete_flag r) (table w))\<rparr>"
  by (simp add: fetchTodos_def send_def remote_fetch_ok)

lemma fetchTodos_failure:
  "error (fst (remote e fetch_request (table w))) = Some m \<Longrightarrow>
   fetchTodos e w =
     w\<lparr>calls := calls w @ [fetch_request],
       effects := effects w @ [ConsoleError FetchFailed m, Alert FetchFailed]\<rparr>"
  by (simp add: fetchTodos_def send_def remote_error [of e fetch_request "table w" m] failed_def)

lemma fetchTodos_table: "table (fetchTodos e w) = table w"
  by (cases "fault e")
     (simp_all add: fetchTodos_def send_def remote_fetch_ok remote_fault failed_def)

lemma addTodo_ok:
  "trim (inputText w) \<noteq> [] \<Longrightarrow> fault e = None \<Longrightarrow> srv_id e 0 \<notin> set (map todo_id (table w)) \<Longrightarrow>
   addTodo now e w =
     w\<lparr>table := table w @ [\<lparr>todo_id = srv_id e 0, todo_text = inputText w, completed = False,
             todo_priority = priority w, user_id = None, created_at = srv_now e,
             delete_flag = False, updated_at = now\<rparr>],
       calls := calls w @ [add_request (inputText w) (priority w) now],
       todos := \<lparr>todo_id = srv_id e 0, todo_text = inputText w, completed = False,
             todo_priority = priority w, user_id = None, created_at = srv_now e,
             delete_flag = False, updated_at = now\<rparr> # todos w,
       inputText := []\<rparr>"
  by (simp add: addTodo_def addTodo_begin_def addTodo_resume_def send_def remote_add_ok)

lemma addTodo_resume_ok:
  "error (answer a) = None \<Longrightarrow> data (answer a) = Some d \<Longrightarrow>
   addTodo_resume (Some a) w = w\<lparr>todos := d @ seen_todos a, inputText := []\<rparr>"
  by (simp add: addTodo_resume_def)

lemma addTodo_failure:
  "trim (inputText w) \<noteq> [] \<Longrightarrow>
   error (fst (remote e (add_request (inputText w) (priority w) now) (table w))) = Some m \<Longrightarrow>
   addTodo now e w =
     w\<lparr>calls := calls w @ [add_request (inputText w) (priority w) now],
       effects := effects w @ [ConsoleError AddFailed m, Alert AddFailed]\<rparr>"
  by (simp add: addTodo_def addTodo_begin_def addTodo_resume_def send_def failed_def
        remote_error [of e "add_request (inputText w) (priority w) now" "table w" m])

lemma addTodo_priority: "priority (addTodo now e w) = priority w"
  by (simp add: addTodo_def addTodo_begin_def addTodo_resume_def send_def
        split: prod.splits option.splits)

lemma toggleTodo_ok:
  "fault e = None \<Longrightarrow>
   toggleTodo i c now e e' w =
     fetchTodos e'
       (w\<lparr>table := map (\<lambda>r. if todo_id r = i
                              then r\<lparr>completed := \<not> c, updated_at := now\<rparr> else r) (table w),
          calls := calls w @ [toggle_request i c now]\<rparr>)"
  by (simp add: toggleTodo_def send_def remote_toggle_ok)

lemma deleteTodo_ok:
  "fault e = None \<Longrightarrow>
   deleteTodo i now e e' w =
     fetchTodos e'
       (w\<lparr>table := map (\<lambda>r. if todo_id r = i
                              then r\<lparr>delete_flag := True, updated_at := now\<rparr> else r) (table w),
          calls := calls w @ [delete_request i now]\<rparr>)"
  by (simp add: deleteTodo_def send_def remote_delete_ok)

lemma toggleTodo_failure:
  "error (fst (remote e (toggle_request i c now) (table w))) = Some m \<Longrightarrow>
   toggleTodo i c now e e' w =
     w\<lparr>calls := calls w @ [toggle_request i c now],
       effects := effects w @ [ConsoleError UpdateFailed m]\<rparr>"
  by (simp add: toggleTodo_def send_def failed_def
        remote_error [of e "toggle_request i c now" "table w" m])

lemma deleteTodo_failure:
  "error (fst (remote e (delete_request i now) (table w))) = Some m \<Longrightarrow>
   deleteTodo i now e e' w =
     w\<lparr>calls := calls w @ [delete_request i now],
       effects := effects w @ [ConsoleError DeleteFailed m]\<rparr>"
  by (simp add: deleteTodo_def send_def failed_def
        remote_error [of e "delete_request i now" "table w" m])

lemma desc_sorted:
  "sorted_wrt (\<lambda>a b. created_at b \<le> created_at a) (sort_key (\<lambda>r. - created_at r) rs)"
proof -
  have "sorted (map (\<lambda>r. - created_at r) (sort_key (\<lambda>r. - created_at r) rs))"
    by (rule sorted_sort_key)
  then show ?thesis
    by (simp add: sorted_map)
qed

lemma addTodo_calls:
  "trim (inputText w) \<noteq> [] \<Longrightarrow>
   calls (addTodo now e w) = calls w @ [add_request (inputText w) (priority w) now]"
  by (simp add: addTodo_def addTodo_begin_def addTodo_resume_def send_def
        split: prod.splits option.splits)

lemma apply_patch_id: "todo_id (apply_patch p r) = todo_id r"
  by (simp add: apply_patch_def)

text \<open>No request removes a row: the identifiers of the table stay, in their places.\<close>

lemma remote_keeps_rows:
  "map todo_id (take (length t) (snd (remote e q t))) = map todo_id t"
proof (cases "fault e")
  case (Some m)
  then show ?thesis
    by (simp add: remote_fault)
next
  case None
  show ?thesis
  proof (cases q)
    case (Select cs ob)
    with None show ?thesis
      by (simp add: remote.simps)
  next
    case (Insert ps b)
    with None show ?thesis
      by (simp add: remote.simps Let_def)
  next
    case (Update p cs b)
    have "map todo_id (map (\<lambda>r. if satisfies cs r then apply_patch p r else r) t) =
            map todo_id t"
      by (induction t) (simp_all add: apply_patch_id)
    with None Update show ?thesis
      by (simp add: remote.simps Let_def)
  qed
qed

text \<open>Updates addressed by \<^verbatim>\<open>id\<close>, on any table.\<close>

lemma update_absent:
  "i \<notin> set (map todo_id t) \<Longrightarrow> map (\<lambda>r. if todo_id r = i then f r else r) t = t"
  by (induction t) auto

lemma flagged_ids:
  "map todo_id (map (\<lambda>r. if todo_id r = i then r\<lparr>delete_flag := True, updated_at := now\<rparr> else r) t)
     = map todo_id t"
  by (induction t) simp_all

lemma flagged_all:
  assumes "r \<in> set (map (\<lambda>r. if todo_id r = i then r\<lparr>delete_flag := True, updated_at := now\<rparr> else r) t)"
    and "todo_id r = i"
  shows "delete_flag r"
proof -
  let ?f = "\<lambda>r. if todo_id r = i then r\<lparr>delete_flag := True, updated_at := now\<rparr> else r"
  from assms(1) have "r \<in> ?f ` set t"
    by (simp only: set_map)
  then obtain x where rx: "r = ?f x"
    by (rule imageE)
  show ?thesis
  proof (cases "todo_id x = i")
    case True
    with rx show ?thesis by simp
  next
    case False
    with rx assms(2) show ?thesis by simp
  qed
qed

lemma flagged_hidden:
  "i \<notin> set (map todo_id (filter (\<lambda>r. \<not> delete_flag r)
     (map (\<lambda>r. if todo_id r = i then r\<lparr>delete_flag := True, updated_at := now\<rparr> else r) t)))"
  by (induction t) simp_all

lemma flagged_present:
  "i \<in> set (map todo_id t) \<Longrightarrow>
   \<exists>r \<in> set (map (\<lambda>r. if todo_id r = i then r\<lparr>delete_flag := True, updated_at := now\<rparr> else r) t).
     todo_id r = i"
  by (induction t) auto

section \<open>Loading the list\<close>

text \<open>
  C1. Whatever the remote table holds, the list a successful \<^verbatim>\<open>fetchTodos\<close> stores
  has only rows whose \<^verbatim>\<open>delete_flag\<close> is false: it has exactly the rows of the table
  that are not flagged.
\<close>

theorem fetchTodos_only_active:
  assumes "fault e = None"
  shows "(\<forall>r \<in> set (todos (fetchTodos e w)). delete_flag r = False) \<and>
         set (todos (fetchTodos e w)) = {r \<in> set (table w). delete_flag r = False}"
  using assms by (auto simp: fetchTodos_ok)

theorem fetchTodos_only_active_witness:
  "fault up = None \<and>
   todos (fetchTodos up shelf) = [taxes, milk] \<and>
   list_all (\<lambda>r. delete_flag r = False) (todos (fetchTodos up shelf)) \<and>
   set (todos (fetchTodos up shelf)) = {r \<in> set (table shelf). delete_flag r = False}"
proof -
  have h: "fault up = None"
    by (simp add: up_def)
  have v: "todos (fetchTodos up shelf) = [taxes, milk]"
    by (simp add: fetchTodos_ok h shelf_def mounted_def milk_def bread_def taxes_def)
  note t = fetchTodos_only_active [OF h, of shelf]
  from t [THEN conjunct1]
  have a: "list_all (\<lambda>r. delete_flag r = False) (todos (fetchTodos up shelf))"
    by (simp only: list_all_iff)
  from t have b: "set (todos (fetchTodos up shelf)) =
                    {r \<in> set (table shelf). delete_flag r = False}"
    by (rule conjunct2)
  from h v a b show ?thesis
    by (intro conjI)
qed

text \<open>
  C2. In the list a successful \<^verbatim>\<open>fetchTodos\<close> stores, a row with a later
  \<^verbatim>\<open>created_at\<close> stands before a row with an earlier one: when the row at position
  \<open>i\<close> was created after the row at position \<open>j\<close>, then \<open>i < j\<close>.
\<close>

theorem fetchTodos_newest_first:
  assumes "fault e = None"
    and "i < length (todos (fetchTodos e w))"
    and "j < length (todos (fetchTodos e w))"
    and "created_at (todos (fetchTodos e w) ! j) < created_at (todos (fetchTodos e w) ! i)"
  shows "i < j"
proof (rule ccontr)
  let ?xs = "todos (fetchTodos e w)"
  assume "\<not> i < j"
  with assms(4) have lt: "j < i"
    by (cases "i = j") auto
  have "sorted_wrt (\<lambda>a b. created_at b \<le> created_at a) ?xs"
    using assms(1) by (simp add: fetchTodos_ok desc_sorted)
  from sorted_wrt_nth_less [OF this lt assms(2)]
  have "created_at (?xs ! i) \<le> created_at (?xs ! j)" .
  with assms(4) show False
    by simp
qed

theorem fetchTodos_newest_first_witness:
  "fault up = None \<and>
   0 < length (todos (fetchTodos up shelf)) \<and>
   1 < length (todos (fetchTodos up shelf)) \<and>
   created_at (todos (fetchTodos up shelf) ! 1) < created_at (todos (fetchTodos up shelf) ! 0) \<and>
   todos (fetchTodos up shelf) = [taxes, milk] \<and> (0::nat) < 1"
  using fetchTodos_newest_first [of up 0 shelf 1]
  by (simp add: fetchTodos_ok up_def shelf_def mounted_def milk_def bread_def taxes_def)

section \<open>Submitting a new todo\<close>

text \<open>
  C3 asks that a submit with non-blank input inserts exactly one row with
  \<^verbatim>\<open>completed = false\<close>, \<^verbatim>\<open>delete_flag = false\<close> and \<^verbatim>\<open>updated_at\<close> the current time,
  and on success puts the returned row in front of the local list and clears the input
  field. The code does not, when a second submit is clicked before the answer to the
  first has arrived. With \<^verbatim>\<open>taxes\<close> and \<^verbatim>\<open>milk\<close> listed, both inserts are accepted and the
  table holds both new rows, unflagged. The first answer puts its row in front of the
  list; the second answer then writes its row in front of the list its handler was
  called with, and the first row is gone from the local list.
\<close>

theorem double_submit_drops_row:
  "todos desk = [taxes, milk] \<and>
   table (double_submit 50 up 51 later desk) = [milk, bread, taxes, mum, mum_again] \<and>
   delete_flag mum = False \<and>
   todos (addTodo 50 up desk) = [mum, taxes, milk] \<and>
   todos (double_submit 50 up 51 later desk) = [mum_again, taxes, milk] \<and>
   inputText (double_submit 50 up 51 later desk) = []"
  by (simp add: double_submit_def addTodo_def addTodo_begin_def addTodo_resume_def send_def
        remote_add_ok fetchTodos_ok desk_def typing_def shelf_def mounted_def up_def
        later_def mum_def mum_again_def js_def trim_def is_ws_def
        milk_def bread_def taxes_def)

text \<open>
  C9. The text that is sent and stored is the input as typed, blanks at its ends
  included: \<^verbatim>\<open>trim\<close> is used for the test only. When trimming changes the input, the
  stored text differs from the trimmed one.
\<close>

theorem addTodo_stores_raw_text:
  assumes "trim (inputText w) \<noteq> []"
    and "fault e = None"
    and "srv_id e 0 \<notin> set (map todo_id (table w))"
  shows "calls (addTodo now e w) = calls w @ [add_request (inputText w) (priority w) now] \<and>
         map todo_text (table (addTodo now e w)) = map todo_text (table w) @ [inputText w] \<and>
         map todo_text (todos (addTodo now e w)) = inputText w # map todo_text (todos w) \<and>
         (trim (inputText w) \<noteq> inputText w \<longrightarrow>
            last (map todo_text (table (addTodo now e w))) \<noteq> trim (inputText w))"
  using assms by (simp add: addTodo_ok)

theorem addTodo_stores_raw_text_witness:
  "trim (inputText typing) \<noteq> [] \<and> fault up = None \<and>
   srv_id up 0 \<notin> set (map todo_id (table typing)) \<and>
   trim (inputText typing) = js ''Call mum'' \<and>
   trim (inputText typing) \<noteq> inputText typing \<and>
   map todo_text (table (addTodo 50 up typing)) =
     map todo_text (table typing) @ [js ''  Call mum ''] \<and>
   last (map todo_text (table (addTodo 50 up typing))) \<noteq> trim (inputText typing)"
  using addTodo_stores_raw_text [of typing up 50]
  by (simp add: typing_def shelf_def mounted_def up_def js_def trim_def is_ws_def
        milk_def bread_def taxes_def)

text \<open>
  C10. \<^verbatim>\<open>addTodo\<close> never writes the selected priority; a successful submit clears
  the input field, which held text before, and the priority keeps its value for the
  next submission.
\<close>

theorem addTodo_keeps_priority:
  "priority (addTodo now e w) = priority w \<and>
   (trim (inputText w) \<noteq> [] \<and> fault e = None \<and>
    srv_id e 0 \<notin> set (map todo_id (table w)) \<longrightarrow>
      inputText (addTodo now e w) = [] \<and> inputText w \<noteq> [])"
proof -
  have "trim [] = []"
    by (simp add: trim_def)
  then have "trim (inputText w) \<noteq> [] \<Longrightarrow> inputText w \<noteq> []"
    by auto
  then show ?thesis
    by (simp add: addTodo_priority addTodo_ok)
qed

theorem addTodo_keeps_priority_witness:
  "trim (inputText typing) \<noteq> [] \<and> fault up = None \<and>
   srv_id up 0 \<notin> set (map todo_id (table typing)) \<and>
   priority typing = high \<and>
   priority (addTodo 50 up typing) = high \<and>
   inputText (addTodo 50 up typing) = []"
  using addTodo_keeps_priority [of 50 up typing]
  by (simp add: typing_def shelf_def mounted_def up_def js_def trim_def is_ws_def
        milk_def bread_def taxes_def)

text \<open>
  C4. When the input is empty or consists of whitespace only, \<^verbatim>\<open>addTodo\<close> returns at
  once: no call reaches the remote store, and the list, the input field, the priority
  and everything else stay as they were.
\<close>

theorem addTodo_blank_noop:
  assumes "trim (inputText w) = []"
  shows "addTodo now e w = w"
  using assms by (simp add: addTodo_def addTodo_begin_def addTodo_resume_def)

theorem addTodo_blank_noop_witness:
  "trim (inputText (shelf\<lparr>inputText := [0x0020, 0x0009, 0x3000]\<rparr>)) = [] \<and>
   addTodo 50 up (shelf\<lparr>inputText := [0x0020, 0x0009, 0x3000]\<rparr>) =
     shelf\<lparr>inputText := [0x0020, 0x0009, 0x3000]\<rparr>"
  using addTodo_blank_noop [of "shelf\<lparr>inputText := [0x0020, 0x0009, 0x3000]\<rparr>" 50 up]
  by (simp add: trim_def is_ws_def)

section \<open>Toggling\<close>

text \<open>
  C5, as stated, fails. The row \<^verbatim>\<open>milk\<close> is loaded and clicked; the update is
  applied (\<^verbatim>\<open>completed\<close> becomes true, \<^verbatim>\<open>updated_at\<close> 60) but the reload fails, so the
  local list still shows the row open. A second click, whose update and reload both
  succeed, writes \<^verbatim>\<open>completed = true\<close> again: the stored \<^verbatim>\<open>completed\<close> is not flipped,
  and \<^verbatim>\<open>updated_at\<close> of the row has changed from 60 to 70.
\<close>

theorem toggle_stale_counterexample:
  "todos stale = [milk] \<and>
   completed milk = False \<and> updated_at milk = 10 \<and>
   table stale = [milk\<lparr>completed := True, updated_at := 60\<rparr>] \<and>
   table (click_toggle 0 70 up up stale) = [milk\<lparr>completed := True, updated_at := 70\<rparr>] \<and>
   todos (click_toggle 0 70 up up stale) = [milk\<lparr>completed := True, updated_at := 70\<rparr>]"
  by (simp add: stale_def click_toggle_def toggleTodo_ok fetchTodos_ok fetchTodos_failure
        remote_fault failed_def up_def down_def mounted_def milk_def)

text \<open>
  C5, amended. \<^verbatim>\<open>toggleTodo\<close> with the identifier \<open>i\<close> and the value \<open>c\<close> of
  \<^verbatim>\<open>completed\<close> read from the local list, followed by a successful reload, writes
  \<^verbatim>\<open>completed = \<not> c\<close> and \<^verbatim>\<open>updated_at = now\<close> into every remote row whose \<^verbatim>\<open>id\<close> is
  \<open>i\<close> and changes no other field and no other row; the stored \<^verbatim>\<open>completed\<close> is
  flipped when \<open>c\<close> is the stored value. The local list becomes the unflagged rows
  of the table, newest first.
\<close>

theorem toggleTodo_reload:
  assumes "fault e = None" and "fault e' = None"
  shows "table (toggleTodo i c now e e' w) =
           map (\<lambda>r. if todo_id r = i then r\<lparr>completed := \<not> c, updated_at := now\<rparr> else r)
               (table w) \<and>
         todos (toggleTodo i c now e e' w) =
           sort_key (\<lambda>r. - created_at r)
             (filter (\<lambda>r. \<not> delete_flag r) (table (toggleTodo i c now e e' w)))"
  using assms by (simp add: toggleTodo_ok fetchTodos_ok)

theorem toggleTodo_reload_witness:
  "fault up = None \<and>
   table (toggleTodo (js ''a'') False 60 up up shelf) =
     [milk\<lparr>completed := True, updated_at := 60\<rparr>, bread, taxes] \<and>
   todos (toggleTodo (js ''a'') False 60 up up shelf) =
     [taxes, milk\<lparr>completed := True, updated_at := 60\<rparr>]"
proof -
  have h: "fault up = None"
    by (simp add: up_def)
  from toggleTodo_reload [OF h h, of "js ''a''" False 60 shelf] h show ?thesis
    by (simp add: shelf_def mounted_def js_def milk_def bread_def taxes_def)
qed

section \<open>Removing\<close>

text \<open>
  C6. For an identifier present in the remote table, \<^verbatim>\<open>deleteTodo\<close> followed by a
  successful reload leaves no row with that identifier in the local list, while the
  table still has a row with it, every such row now has \<^verbatim>\<open>delete_flag = true\<close>, and the
  table has the same identifiers in the same places as before. No request at all
  removes a row from the table.
\<close>

theorem deleteTodo_reload:
  assumes "i \<in> set (map todo_id (table w))"
    and "fault e = None" and "fault e' = None"
  shows "i \<notin> set (map todo_id (todos (deleteTodo i now e e' w))) \<and>
         (\<exists>r \<in> set (table (deleteTodo i now e e' w)). todo_id r = i) \<and>
         (\<forall>r \<in> set (table (deleteTodo i now e e' w)). todo_id r = i \<longrightarrow> delete_flag r) \<and>
         map todo_id (table (deleteTodo i now e e' w)) = map todo_id (table w) \<and>
         table (deleteTodo i now e e' w) =
           map (\<lambda>r. if todo_id r = i then r\<lparr>delete_flag := True, updated_at := now\<rparr> else r)
               (table w) \<and>
         (\<forall>a q t. map todo_id (take (length t) (snd (remote a q t))) = map todo_id t)"
proof -
  let ?t = "map (\<lambda>r. if todo_id r = i then r\<lparr>delete_flag := True, updated_at := now\<rparr> else r)
                (table w)"
  have tab: "table (deleteTodo i now e e' w) = ?t"
    using assms(2) by (simp add: deleteTodo_ok fetchTodos_table)
  have vis: "todos (deleteTodo i now e e' w) =
               sort_key (\<lambda>r. - created_at r) (filter (\<lambda>r. \<not> delete_flag r) ?t)"
    using assms(2,3) by (simp add: deleteTodo_ok fetchTodos_ok)
  have eq: "set (map todo_id (todos (deleteTodo i now e e' w))) =
          set (map todo_id (filter (\<lambda>r. \<not> delete_flag r) ?t))"
    unfolding vis by simp
  have gone: "i \<notin> set (map todo_id (todos (deleteTodo i now e e' w)))"
    unfolding eq by (rule flagged_hidden)
  have there: "\<exists>r \<in> set ?t. todo_id r = i"
    using assms(1) by (rule flagged_present)
  have flagged: "\<forall>r \<in> set ?t. todo_id r = i \<longrightarrow> delete_flag r"
    by (intro ballI impI) (rule flagged_all)
  have ids: "map todo_id ?t = map todo_id (table w)"
    by (rule flagged_ids)
  have kept: "\<forall>a q t. map todo_id (take (length t) (snd (remote a q t))) = map todo_id t"
    by (intro allI) (rule remote_keeps_rows)
  show ?thesis
    unfolding tab using gone there flagged ids kept
    by (intro conjI) (assumption | rule refl)+
qed

theorem deleteTodo_reload_witness:
  "js ''a'' \<in> set (map todo_id (table shelf)) \<and> fault up = None \<and>
   todos (deleteTodo (js ''a'') 60 up up shelf) = [taxes] \<and>
   table (deleteTodo (js ''a'') 60 up up shelf) =
     [milk\<lparr>delete_flag := True, updated_at := 60\<rparr>, bread, taxes] \<and>
   js ''a'' \<notin> set (map todo_id (todos (deleteTodo (js ''a'') 60 up up shelf))) \<and>
   (\<exists>r \<in> set (table (deleteTodo (js ''a'') 60 up up shelf)). todo_id r = js ''a'') \<and>
   map todo_id (table (deleteTodo (js ''a'') 60 up up shelf)) = map todo_id (table shelf)"
proof -
  have h: "fault up = None"
    by (simp add: up_def)
  have p: "js ''a'' \<in> set (map todo_id (table shelf))"
    by (simp add: shelf_def mounted_def milk_def)
  have v: "todos (deleteTodo (js ''a'') 60 up up shelf) = [taxes]"
    by (simp add: deleteTodo_ok fetchTodos_ok h shelf_def mounted_def js_def
          milk_def bread_def taxes_def)
  have t: "table (deleteTodo (js ''a'') 60 up up shelf) =
             [milk\<lparr>delete_flag := True, updated_at := 60\<rparr>, bread, taxes]"
    by (simp add: deleteTodo_ok fetchTodos_table h shelf_def mounted_def js_def
          milk_def bread_def taxes_def)
  from deleteTodo_reload [OF p h h, of 60] h p v t show ?thesis
    by (elim conjE, intro conjI) assumption+
qed

section \<open>Updates of a missing row\<close>

text \<open>
  C8. When no row of the remote table has the identifier, the update \<^verbatim>\<open>toggleTodo\<close>
  sends and the update \<^verbatim>\<open>deleteTodo\<close> sends both succeed without an error and leave
  the table exactly as it was.
\<close>

theorem update_missing_id_noop:
  assumes "i \<notin> set (map todo_id (table w))"
    and "fault e = None"
  shows "remote e (toggle_request i c now) (table w) =
           (\<lparr>data = None, error = None\<rparr>, table w) \<and>
         remote e (delete_request i now) (table w) =
           (\<lparr>data = None, error = None\<rparr>, table w) \<and>
         table (toggleTodo i c now e e' w) = table w \<and>
         table (deleteTodo i now e e' w) = table w"
  using assms
  by (simp add: remote_toggle_ok remote_delete_ok toggleTodo_ok deleteTodo_ok
        fetchTodos_table update_absent)

theorem update_missing_id_noop_witness:
  "js ''zzz'' \<notin> set (map todo_id (table shelf)) \<and> fault up = None \<and>
   remote up (toggle_request (js ''zzz'') False 50) (table shelf) =
     (\<lparr>data = None, error = None\<rparr>, [milk, bread, taxes]) \<and>
   remote up (delete_request (js ''zzz'') 50) (table shelf) =
     (\<lparr>data = None, error = None\<rparr>, [milk, bread, taxes]) \<and>
   table (toggleTodo (js ''zzz'') False 50 up up shelf) = [milk, bread, taxes] \<and>
   table (deleteTodo (js ''zzz'') 50 up up shelf) = [milk, bread, taxes]"
  using update_missing_id_noop [of "js ''zzz''" shelf up False 50 up]
  by (simp add: shelf_def mounted_def up_def js_def milk_def bread_def taxes_def)

section \<open>Failures\<close>

text \<open>
  C7, as stated, fails. The store cannot be reached; the update of \<^verbatim>\<open>toggleTodo\<close>
  fails and so does the update of \<^verbatim>\<open>deleteTodo\<close>. Each handler writes the failure to
  the console and shows no alert.
\<close>

theorem update_failure_not_alerted_counterexample:
  "error (fst (remote down (toggle_request (js ''a'') False 60) (table shelf))) =
     Some (js ''Failed to fetch'') \<and>
   effects (toggleTodo (js ''a'') False 60 down up shelf) =
     [ConsoleError UpdateFailed (js ''Failed to fetch'')] \<and>
   \<not> list_ex is_Alert (effects (toggleTodo (js ''a'') False 60 down up shelf)) \<and>
   error (fst (remote down (delete_request (js ''a'') 60) (table shelf))) =
     Some (js ''Failed to fetch'') \<and>
   effects (deleteTodo (js ''a'') 60 down up shelf) =
     [ConsoleError DeleteFailed (js ''Failed to fetch'')] \<and>
   \<not> list_ex is_Alert (effects (deleteTodo (js ''a'') 60 down up shelf))"
proof -
  have f: "fault down = Some (js ''Failed to fetch'')"
    by (simp add: down_def)
  have r: "error (fst (remote down q t)) = Some (js ''Failed to fetch'')" for q t
    by (simp add: remote_fault [OF f] failed_def)
  have n: "effects shelf = []"
    by (simp add: shelf_def mounted_def)
  show ?thesis
    by (simp add: r n toggleTodo_failure [OF r] deleteTodo_failure [OF r])
qed

text \<open>
  C7, amended. Every failure of a call comes back as the \<^verbatim>\<open>error\<close> of its response and
  is written to the console by the handler that made the call. A failure of the select
  of \<^verbatim>\<open>fetchTodos\<close> (also when it runs as the reload after a toggle or a delete) and a
  failure of the insert of \<^verbatim>\<open>addTodo\<close> are shown in an alert as well; a failure of the
  update of \<^verbatim>\<open>toggleTodo\<close> or \<^verbatim>\<open>deleteTodo\<close> is written to the console only.
\<close>

theorem failures_logged:
  "(error (fst (remote e fetch_request (table w))) = Some m \<longrightarrow>
      effects (fetchTodos e w) = effects w @ [ConsoleError FetchFailed m, Alert FetchFailed]) \<and>
   (trim (inputText w) \<noteq> [] \<and>
    error (fst (remote e (add_request (inputText w) (priority w) now) (table w))) = Some m \<longrightarrow>
      effects (addTodo now e w) = effects w @ [ConsoleError AddFailed m, Alert AddFailed]) \<and>
   (error (fst (remote e (toggle_request i c now) (table w))) = Some m \<longrightarrow>
      effects (toggleTodo i c now e e' w) = effects w @ [ConsoleError UpdateFailed m]) \<and>
   (error (fst (remote e (delete_request i now) (table w))) = Some m \<longrightarrow>
      effects (deleteTodo i now e e' w) = effects w @ [ConsoleError DeleteFailed m]) \<and>
   (fault e = None \<and> fault e' = Some m \<longrightarrow>
      effects (toggleTodo i c now e e' w) =
        effects w @ [ConsoleError FetchFailed m, Alert FetchFailed] \<and>
      effects (deleteTodo i now e e' w) =
        effects w @ [ConsoleError FetchFailed m, Alert FetchFailed])"
proof -
  have reload: "fault e' = Some m \<Longrightarrow>
      effects (fetchTodos e' v) = effects v @ [ConsoleError FetchFailed m, Alert FetchFailed]"
    for v
    by (simp add: fetchTodos_failure remote_fault failed_def)
  show ?thesis
    by (simp add: fetchTodos_failure addTodo_failure toggleTodo_failure deleteTodo_failure
          toggleTodo_ok deleteTodo_ok reload)
qed

theorem failures_logged_witness:
  "error (fst (remote down fetch_request (table typing))) = Some (js ''Failed to fetch'') \<and>
   effects (fetchTodos down typing) =
     [ConsoleError FetchFailed (js ''Failed to fetch''), Alert FetchFailed] \<and>
   trim (inputText typing) \<noteq> [] \<and>
   error (fst (remote down (add_request (inputText typing) (priority typing) 50)
                 (table typing))) = Some (js ''Failed to fetch'') \<and>
   effects (addTodo 50 down typing) =
     [ConsoleError AddFailed (js ''Failed to fetch''), Alert AddFailed] \<and>
   error (fst (remote down (toggle_request (js ''a'') False 50) (table typing))) =
     Some (js ''Failed to fetch'') \<and>
   effects (toggleTodo (js ''a'') False 50 down up typing) =
     [ConsoleError UpdateFailed (js ''Failed to fetch'')] \<and>
   error (fst (remote down (delete_request (js ''a'') 50) (table typing))) =
     Some (js ''Failed to fetch'') \<and>
   effects (deleteTodo (js ''a'') 50 down up typing) =
     [ConsoleError DeleteFailed (js ''Failed to fetch'')] \<and>
   fault up = None \<and> fault down = Some (js ''Failed to fetch'') \<and>
   effects (toggleTodo (js ''a'') False 50 up down typing) =
     [ConsoleError FetchFailed (js ''Failed to fetch''), Alert FetchFailed] \<and>
   effects (deleteTodo (js ''a'') 50 up down typing) =
     [ConsoleError FetchFailed (js ''Failed to fetch''), Alert FetchFailed]"
proof -
  have f: "fault down = Some (js ''Failed to fetch'')"
    by (simp add: down_def)
  have h: "fault up = None"
    by (simp add: up_def)
  have r: "error (fst (remote down q (table typing))) = Some (js ''Failed to fetch'')" for q
    by (simp add: remote_fault [OF f] failed_def)
  have b: "trim (inputText typing) \<noteq> []"
    by (simp add: typing_def js_def trim_def is_ws_def)
  have n: "effects typing = []"
    by (simp add: typing_def shelf_def mounted_def)
  from failures_logged [of down typing "js ''Failed to fetch''" 50 "js ''a''" False up]
    failures_logged [of up typing "js ''Failed to fetch''" 50 "js ''a''" False down]
  show ?thesis
    by (simp add: r b n f h)
qed

end
